theory Spec2Isabelle
  imports Complex_Main
begin

section \<open>The constant-relation matcher of \<^verbatim>\<open>symbolic_discovery.py\<close> (Part 6)\<close>

text \<open>
  Part 6 of the script scans a small table of named constants for a formula
  \<^verbatim>\<open>op(C_i, C_j)\<close> or \<^verbatim>\<open>op(C_i)\<close> whose value is close to the entry named
  \<^verbatim>\<open>TARGET\<close>. The embedding follows lines 204--268 of the source.

  \<^item> \<^verbatim>\<open>constants_db\<close> is a Python dict, iterated in insertion order: an association
    list; a dict has no duplicate keys, which is the hypothesis
    \<open>distinct (map fst db)\<close> where a theorem needs it.
  \<^item> The numeric layer is SymPy's \<^verbatim>\<open>evalf\<close> on 15-digit floats. It is modelled by
    exact real arithmetic (\<open>+\<close>, \<open>*\<close>, \<open>powr\<close>, \<open>sqrt\<close>), which is what
    the floats approximate for positive constants; rounding is not modelled,
    and for a negative constant SymPy leaves the real line (\<^verbatim>\<open>sqrt(-4.0)\<close> is
    \<^verbatim>\<open>2.0*I\<close>) where the model stays on it. The values of the model are therefore
    used only in the theorems about the two positive tables of the
    specification; every theorem about all tables is stated for a run that
    completes and speaks of the errors the loop itself computed, whatever they
    are.
  \<^item> SymPy rewrites \<^verbatim>\<open>Add(a, a)\<close> to \<^verbatim>\<open>2*a\<close> and \<^verbatim>\<open>Mul(a, a)\<close> to \<^verbatim>\<open>a**2\<close> and
    sorts the arguments of the commutative operators. That changes how a
    candidate prints, not its value; a candidate is identified here by the
    operator call that built it.
  \<^item> An uncaught Python exception is a value \<open>Inl e\<close> of the result type.
\<close>

subsection \<open>Data\<close>

type_synonym constants_db = "(string \<times> real) list"

text \<open>\<^verbatim>\<open>operations = [sp.Add, sp.Mul, sp.Pow, sp.sqrt]\<close> (line 216).\<close>

datatype operation = sp_Add | sp_Mul | sp_Pow | sp_sqrt

definition operations :: "operation list" where
  "operations = [sp_Add, sp_Mul, sp_Pow, sp_sqrt]"

text \<open>The symbolic expressions the loop builds.\<close>

datatype expr =
    Symbol string
  | Add expr expr
  | Mul expr expr
  | Power expr expr
  | Sqrt expr

datatype exn = KeyError | TypeError | AttributeError | ZeroDivisionError

text \<open>Python's \<^verbatim>\<open>float\<close> as far as \<^verbatim>\<open>best_match['error']\<close> needs it: a number, or
  \<^verbatim>\<open>float('inf')\<close>.\<close>

datatype pyfloat = Num real | PosInf

fun lt :: "real \<Rightarrow> pyfloat \<Rightarrow> bool" where
  "lt x (Num y) = (x < y)"
| "lt x PosInf = True"

text \<open>
  The state of the scan: the two fields of \<^verbatim>\<open>best_match\<close>, the
  ``Potential Discovery'' lines printed so far (expression and error), and a
  history field \<open>evaluated\<close> that the source does not keep: every candidate the
  loop has built and evaluated, with its error, in order.
\<close>

record state =
  best_expr :: "expr option"
  best_error :: pyfloat
  printed :: "(expr \<times> real) list"
  evaluated :: "(expr \<times> real) list"

definition init_state :: state where
  "init_state = \<lparr>best_expr = None, best_error = PosInf, printed = [], evaluated = []\<rparr>"

definition tolerance :: real where
  "tolerance = 1 / 1000"

subsection \<open>Symbolic expressions\<close>

fun free_symbols :: "expr \<Rightarrow> string set" where
  "free_symbols (Symbol n) = {n}"
| "free_symbols (Add a b) = free_symbols a \<union> free_symbols b"
| "free_symbols (Mul a b) = free_symbols a \<union> free_symbols b"
| "free_symbols (Power a b) = free_symbols a \<union> free_symbols b"
| "free_symbols (Sqrt a) = free_symbols a"

text \<open>
  The power of two floats as \<^verbatim>\<open>evalf\<close> computes it: anything to the power \<open>0\<close> is
  \<open>1\<close> (also \<^verbatim>\<open>0.0 ** 0.0\<close>), and zero to a negative power is a division by
  zero, which raises \<^verbatim>\<open>ZeroDivisionError\<close>.
\<close>

definition float_pow :: "real \<Rightarrow> real \<Rightarrow> exn + real" where
  "float_pow x y =
     (if y = 0 then Inr 1
      else if x = 0 \<and> y < 0 then Inl ZeroDivisionError
      else Inr (x powr y))"

text \<open>An operation on the values of the arguments: an exception of an argument
  is passed on, the left one first; an argument that is not a number gives a
  result that is not a number.\<close>

fun lift1 :: "(real \<Rightarrow> exn + real) \<Rightarrow> exn + real option \<Rightarrow> exn + real option" where
  "lift1 f (Inl e) = Inl e"
| "lift1 f (Inr None) = Inr None"
| "lift1 f (Inr (Some x)) = (case f x of Inl e \<Rightarrow> Inl e | Inr v \<Rightarrow> Inr (Some v))"

fun lift2 ::
  "(real \<Rightarrow> real \<Rightarrow> exn + real) \<Rightarrow> exn + real option \<Rightarrow> exn + real option \<Rightarrow> exn + real option"
where
  "lift2 f (Inl e) b = Inl e"
| "lift2 f (Inr x) (Inl e) = Inl e"
| "lift2 f (Inr (Some x)) (Inr (Some y)) =
     (case f x y of Inl e \<Rightarrow> Inl e | Inr v \<Rightarrow> Inr (Some v))"
| "lift2 f (Inr x) (Inr y) = Inr None"

text \<open>
  \<^verbatim>\<open>expr.evalf(subs=...)\<close>: the value of the expression with the symbols replaced by
  numbers; \<open>Inr None\<close> when a symbol has no number, where SymPy returns an
  expression that is not a number; \<open>Inl e\<close> when the evaluation raises. The
  substitution is a dict, written in the loop as a literal
  \<^verbatim>\<open>{Symbol(c1_name): c1_val, Symbol(c2_name): c2_val}\<close>: a map, in which a later
  binding of the same key replaces an earlier one.
\<close>

fun evalf :: "(string \<rightharpoonup> real) \<Rightarrow> expr \<Rightarrow> exn + real option" where
  "evalf subs (Symbol n) = Inr (subs n)"
| "evalf subs (Add a b) = lift2 (\<lambda>x y. Inr (x + y)) (evalf subs a) (evalf subs b)"
| "evalf subs (Mul a b) = lift2 (\<lambda>x y. Inr (x * y)) (evalf subs a) (evalf subs b)"
| "evalf subs (Power a b) = lift2 float_pow (evalf subs a) (evalf subs b)"
| "evalf subs (Sqrt a) = lift1 (\<lambda>x. Inr (sqrt x)) (evalf subs a)"

text \<open>\<^verbatim>\<open>op(a, b)\<close> for an entry of \<open>operations\<close>. The loop calls it for the three
  binary operators only; \<^verbatim>\<open>sp.sqrt(a, b)\<close> would take \<^verbatim>\<open>b\<close> as its
  \<^verbatim>\<open>evaluate\<close> flag.\<close>

fun call2 :: "operation \<Rightarrow> expr \<Rightarrow> expr \<Rightarrow> expr" where
  "call2 sp_Add a b = Add a b"
| "call2 sp_Mul a b = Mul a b"
| "call2 sp_Pow a b = Power a b"
| "call2 sp_sqrt a b = Sqrt a"

text \<open>\<^verbatim>\<open>itertools.combinations_with_replacement(xs, 2)\<close>: the pairs of positions
  \<open>i \<le> j\<close>, in lexicographic order.\<close>

fun combinations_with_replacement :: "'a list \<Rightarrow> ('a \<times> 'a) list" where
  "combinations_with_replacement [] = []"
| "combinations_with_replacement (x # xs) =
     map (Pair x) (x # xs) @ combinations_with_replacement xs"

subsection \<open>The discovery loop\<close>

text \<open>
  Lines 235--243 and 254--262 are the same text: evaluate the candidate (which
  may raise), take its distance to \<^verbatim>\<open>constants_db['TARGET']\<close> (a \<^verbatim>\<open>KeyError\<close>
  when the table has no such entry), print it when the error is below the
  tolerance, and replace \<^verbatim>\<open>best_match\<close> when the error is strictly smaller.
  Comparing an error that is not a number raises \<^verbatim>\<open>TypeError\<close>.
\<close>

definition check :: "constants_db \<Rightarrow> expr \<Rightarrow> (string \<rightharpoonup> real) \<Rightarrow> state \<Rightarrow> exn + state" where
  "check db symbolic_expr subs s =
     (case evalf subs symbolic_expr of
        Inl e \<Rightarrow> Inl e
      | Inr numeric_val \<Rightarrow>
          (case map_of db ''TARGET'' of
             None \<Rightarrow> Inl KeyError
           | Some target \<Rightarrow>
               (case numeric_val of
                  None \<Rightarrow> Inl TypeError
                | Some v \<Rightarrow>
                    (let error = \<bar>v - target\<bar>;
                         s1 = s\<lparr>evaluated := evaluated s @ [(symbolic_expr, error)]\<rparr>;
                         s2 = (if error < tolerance
                               then s1\<lparr>printed := printed s1 @ [(symbolic_expr, error)]\<rparr>
                               else s1)
                     in Inr (if lt error (best_error s2)
                             then s2\<lparr>best_expr := Some symbolic_expr, best_error := Num error\<rparr>
                             else s2)))))"

text \<open>Lines 228--243: the unary candidates of one operator. \<^verbatim>\<open>symbolic_expr\<close> is
  \<^verbatim>\<open>None\<close> unless the operator is \<^verbatim>\<open>sp.sqrt\<close>; a SymPy expression is true in
  \<^verbatim>\<open>if symbolic_expr:\<close>.\<close>

fun unary_loop :: "operation \<Rightarrow> constants_db \<Rightarrow> (string \<times> real) list \<Rightarrow> state \<Rightarrow> exn + state" where
  "unary_loop op db [] s = Inr s"
| "unary_loop op db ((c_name, c_val) # items) s =
     (if c_name = ''TARGET'' then unary_loop op db items s
      else
        (case (if op = sp_sqrt then Some (Sqrt (Symbol c_name)) else None) of
           None \<Rightarrow> unary_loop op db items s
         | Some symbolic_expr \<Rightarrow>
             (case check db symbolic_expr [c_name \<mapsto> c_val] s of
                Inl e \<Rightarrow> Inl e
              | Inr s' \<Rightarrow> unary_loop op db items s')))"

text \<open>Lines 247--262: the binary candidates of one operator.\<close>

fun binary_loop ::
  "operation \<Rightarrow> constants_db \<Rightarrow> ((string \<times> real) \<times> (string \<times> real)) list \<Rightarrow> state \<Rightarrow> exn + state"
where
  "binary_loop op db [] s = Inr s"
| "binary_loop op db (((c1_name, c1_val), (c2_name, c2_val)) # pairs) s =
     (if ''TARGET'' \<in> set [c1_name, c2_name] then binary_loop op db pairs s
      else
        (case check db (call2 op (Symbol c1_name) (Symbol c2_name))
                [c1_name \<mapsto> c1_val, c2_name \<mapsto> c2_val] s of
           Inl e \<Rightarrow> Inl e
         | Inr s' \<Rightarrow> binary_loop op db pairs s'))"

text \<open>Lines 226--262: the loop over the operators (the second component of the
  \<^verbatim>\<open>zip\<close>, \<^verbatim>\<open>op_symbol\<close>, is never read).\<close>

fun op_loop :: "operation list \<Rightarrow> constants_db \<Rightarrow> state \<Rightarrow> exn + state" where
  "op_loop [] db s = Inr s"
| "op_loop (op # ops) db s =
     (case unary_loop op db db s of
        Inl e \<Rightarrow> Inl e
      | Inr s1 \<Rightarrow>
          (case (if op \<in> set [sp_Add, sp_Mul, sp_Pow]
                 then binary_loop op db (combinations_with_replacement db) s1
                 else Inr s1) of
             Inl e \<Rightarrow> Inl e
           | Inr s2 \<Rightarrow> op_loop ops db s2))"

definition scan :: "constants_db \<Rightarrow> exn + state" where
  "scan db = op_loop operations db init_state"

subsection \<open>The final report\<close>

text \<open>
  Lines 265--268 print the best expression, its value under the constants it
  mentions, the target and the error. Line 267 calls \<^verbatim>\<open>.evalf\<close> on
  \<^verbatim>\<open>best_match['expr']\<close>, which is still \<^verbatim>\<open>None\<close> when no candidate was
  evaluated: an \<^verbatim>\<open>AttributeError\<close>.
\<close>

record report =
  rep_expr :: expr
  rep_value :: "real option"
  rep_target :: real
  rep_error :: pyfloat

definition final_report :: "constants_db \<Rightarrow> state \<Rightarrow> exn + report" where
  "final_report db s =
     (case best_expr s of
        None \<Rightarrow> Inl AttributeError
      | Some e \<Rightarrow>
          (case evalf (map_of (filter (\<lambda>(k, v). k \<in> free_symbols e) db)) e of
             Inl x \<Rightarrow> Inl x
           | Inr v \<Rightarrow>
               (case map_of db ''TARGET'' of
                  None \<Rightarrow> Inl KeyError
                | Some target \<Rightarrow>
                    Inr \<lparr>rep_expr = e, rep_value = v, rep_target = target,
                         rep_error = best_error s\<rparr>)))"

text \<open>Part 6 as a whole, as a function of the table: the scan, then the report.\<close>

definition discover :: "constants_db \<Rightarrow> exn + report" where
  "discover db = (case scan db of Inl e \<Rightarrow> Inl e | Inr s \<Rightarrow> final_report db s)"

text \<open>The candidates of a run, in the order the scan evaluates them.\<close>

definition candidates :: "constants_db \<Rightarrow> expr list" where
  "candidates db = (case scan db of Inl e \<Rightarrow> [] | Inr s \<Rightarrow> map fst (evaluated s))"

subsection \<open>The scan as one pass over a list of candidates\<close>

text \<open>
  The definitions of this subsection are not in the source. They describe the
  three nested loops as a single pass over a list of jobs (a candidate with
  its substitution), and are proved equal to the loops below.
\<close>

definition non_target :: "constants_db \<Rightarrow> constants_db" where
  "non_target db = filter (\<lambda>(c_name, c_val). c_name \<noteq> ''TARGET'') db"

type_synonym job = "expr \<times> (string \<rightharpoonup> real)"

definition unary_jobs :: "operation \<Rightarrow> constants_db \<Rightarrow> job list" where
  "unary_jobs op items =
     (if op = sp_sqrt
      then map (\<lambda>(c_name, c_val). (Sqrt (Symbol c_name), [c_name \<mapsto> c_val])) (non_target items)
      else [])"

definition binary_jobs :: "operation \<Rightarrow> constants_db \<Rightarrow> job list" where
  "binary_jobs op db =
     (if op \<in> set [sp_Add, sp_Mul, sp_Pow]
      then map (\<lambda>((c1_name, c1_val), (c2_name, c2_val)).
                  (call2 op (Symbol c1_name) (Symbol c2_name),
                   [c1_name \<mapsto> c1_val, c2_name \<mapsto> c2_val]))
             (combinations_with_replacement (non_target db))
      else [])"

definition jobs :: "constants_db \<Rightarrow> job list" where
  "jobs db = concat (map (\<lambda>op. unary_jobs op db @ binary_jobs op db) operations)"

fun run_jobs :: "constants_db \<Rightarrow> job list \<Rightarrow> state \<Rightarrow> exn + state" where
  "run_jobs db [] s = Inr s"
| "run_jobs db ((e, subs) # js) s =
     (case check db e subs s of Inl x \<Rightarrow> Inl x | Inr s' \<Rightarrow> run_jobs db js s')"

text \<open>
  The enumeration order in closed form, over the names of the non-target
  entries in table order: all sums, then all products, then all powers, each
  over the pairs of positions \<open>i \<le> j\<close>, then all square roots.
\<close>

definition enumeration :: "string list \<Rightarrow> expr list" where
  "enumeration names =
     map (\<lambda>(a, b). Add (Symbol a) (Symbol b)) (combinations_with_replacement names) @
     map (\<lambda>(a, b). Mul (Symbol a) (Symbol b)) (combinations_with_replacement names) @
     map (\<lambda>(a, b). Power (Symbol a) (Symbol b)) (combinations_with_replacement names) @
     map (\<lambda>a. Sqrt (Symbol a)) names"


text \<open>The two tables of the specification.\<close>

definition example_db :: constants_db where
  "example_db = [(''C1'', 1618 / 1000), (''C2'', 2718 / 1000), (''C3'', 31415 / 10000),
                 (''TARGET'', 9869 / 1000)]"

definition square_db :: constants_db where
  "square_db = [(''A'', 2), (''TARGET'', 4)]"

subsection \<open>The loops as one pass\<close>

lemma run_jobs_append:
  "run_jobs db (js @ ks) s = (case run_jobs db js s of Inl x \<Rightarrow> Inl x | Inr s' \<Rightarrow> run_jobs db ks s')"
  by (induction js arbitrary: s) (auto split: sum.splits)

lemma unary_loop_run_jobs: "unary_loop op db items s = run_jobs db (unary_jobs op items) s"
  by (induction op db items s rule: unary_loop.induct)
     (auto simp: unary_jobs_def non_target_def split: sum.splits)

lemma filter_combinations_with_replacement:
  "filter (\<lambda>(a, b). P a \<and> P b) (combinations_with_replacement xs) =
   combinations_with_replacement (filter P xs)"
proof (induction xs)
  case Nil
  show ?case by simp
next
  case (Cons x xs)
  have "filter (\<lambda>(a, b). P a \<and> P b) (map (Pair x) xs) = (if P x then map (Pair x) (filter P xs) else [])"
    by (induction xs) auto
  with Cons show ?case by simp
qed

lemma binary_loop_run_jobs:
  "binary_loop op db pairs s =
   run_jobs db (map (\<lambda>((c1_name, c1_val), (c2_name, c2_val)).
                  (call2 op (Symbol c1_name) (Symbol c2_name),
                   [c1_name \<mapsto> c1_val, c2_name \<mapsto> c2_val]))
      (filter (\<lambda>(a, b). (case a of (c_name, c_val) \<Rightarrow> c_name \<noteq> ''TARGET'') \<and> (case b of (c_name, c_val) \<Rightarrow> c_name \<noteq> ''TARGET'')) pairs)) s"
proof (induction op db pairs s rule: binary_loop.induct)
  case (1 op db s)
  show ?case by simp
next
  case (2 op db c1_name c1_val c2_name c2_val pairs s)
  show ?case
  proof (cases "''TARGET'' \<in> set [c1_name, c2_name]")
    case True
    with 2(1) show ?thesis by auto
  next
    case False
    show ?thesis
    proof (cases "check db (call2 op (Symbol c1_name) (Symbol c2_name)) [c1_name \<mapsto> c1_val, c2_name \<mapsto> c2_val] s")
      case (Inl x)
      with False show ?thesis by (auto simp del: fun_upd_apply)
    next
      case (Inr s')
      with False 2(2)[OF False Inr] show ?thesis by (auto simp del: fun_upd_apply)
    qed
  qed
qed

lemma binary_branch_run_jobs:
  "(if op \<in> set [sp_Add, sp_Mul, sp_Pow]
    then binary_loop op db (combinations_with_replacement db) s
    else Inr s) = run_jobs db (binary_jobs op db) s"
  unfolding binary_jobs_def non_target_def binary_loop_run_jobs filter_combinations_with_replacement
  by simp

lemma op_loop_run_jobs:
  "op_loop ops db s = run_jobs db (concat (map (\<lambda>op. unary_jobs op db @ binary_jobs op db) ops)) s"
proof (induction ops arbitrary: s)
  case Nil
  show ?case by simp
next
  case (Cons op ops)
  show ?case
    unfolding op_loop.simps binary_branch_run_jobs unary_loop_run_jobs
    by (simp add: run_jobs_append Cons split: sum.splits)
qed

lemma scan_run_jobs: "scan db = run_jobs db (jobs db) init_state"
  by (simp add: scan_def jobs_def op_loop_run_jobs)

subsection \<open>One step and a pass\<close>

lemma check_Inr:
  assumes "check db e subs s = Inr s'"
  obtains t v where "map_of db ''TARGET'' = Some t" and "evalf subs e = Inr (Some v)"
    and "evaluated s' = evaluated s @ [(e, \<bar>v - t\<bar>)]"
    and "printed s' = printed s @ (if \<bar>v - t\<bar> < tolerance then [(e, \<bar>v - t\<bar>)] else [])"
    and "best_expr s' = (if lt \<bar>v - t\<bar> (best_error s) then Some e else best_expr s)"
    and "best_error s' = (if lt \<bar>v - t\<bar> (best_error s) then Num \<bar>v - t\<bar> else best_error s)"
  using assms
  by (auto simp: check_def Let_def split: sum.splits option.splits if_splits)

lemma check_total:
  assumes "map_of db ''TARGET'' = Some t" and "evalf subs e = Inr (Some v)"
  shows "\<exists>s'. check db e subs s = Inr s'"
  using assms by (simp add: check_def Let_def)


lemma run_jobs_total:
  assumes "map_of db ''TARGET'' = Some t"
    and "\<forall>(e, subs) \<in> set js. \<exists>v. evalf subs e = Inr (Some v)"
  shows "\<exists>s'. run_jobs db js s = Inr s'"
  using assms(2)
proof (induction js arbitrary: s)
  case Nil
  show ?case by simp
next
  case (Cons j js)
  obtain e subs where j: "j = (e, subs)" by (cases j)
  from Cons.prems j obtain v where "evalf subs e = Inr (Some v)" by auto
  from check_total[OF assms(1) this] obtain s1 where "check db e subs s = Inr s1" by blast
  moreover from Cons.IH Cons.prems obtain s' where "run_jobs db js s1 = Inr s'" by fastforce
  ultimately show ?case by (simp add: j)
qed

lemma run_jobs_evaluated:
  "run_jobs db js s = Inr s' \<Longrightarrow> map fst (evaluated s') = map fst (evaluated s) @ map fst js"
proof (induction js arbitrary: s)
  case Nil
  then show ?case by simp
next
  case (Cons j js)
  obtain e subs where j: "j = (e, subs)" by (cases j)
  from Cons.prems obtain s1 where s1: "check db e subs s = Inr s1" and rest: "run_jobs db js s1 = Inr s'"
    by (auto simp: j split: sum.splits)
  from s1 have "map fst (evaluated s1) = map fst (evaluated s) @ [e]"
    by (rule check_Inr) simp
  with Cons.IH[OF rest] show ?case by (simp add: j)
qed




lemma run_jobs_no_improvement:
  assumes "map_of db ''TARGET'' = Some t" and "best_error s = Num b" and "b \<le> tolerance"
    and "\<forall>(e, subs) \<in> set js. \<exists>v. evalf subs e = Inr (Some v) \<and> tolerance \<le> \<bar>v - t\<bar>"
  shows "\<exists>s'. run_jobs db js s = Inr s' \<and> best_expr s' = best_expr s \<and>
              best_error s' = best_error s \<and> printed s' = printed s"
  using assms(2,4)
proof (induction js arbitrary: s)
  case Nil
  show ?case by simp
next
  case (Cons j js)
  obtain e subs where j: "j = (e, subs)" by (cases j)
  from Cons.prems(2) j obtain v where v: "evalf subs e = Inr (Some v)" "tolerance \<le> \<bar>v - t\<bar>"
    by auto
  from v assms(1,3) Cons.prems(1) obtain s1 where s1: "check db e subs s = Inr s1"
    "best_expr s1 = best_expr s" "best_error s1 = best_error s" "printed s1 = printed s"
    by (auto simp: check_def Let_def)
  from Cons.IH[of s1] s1 Cons.prems show ?case by (auto simp: j)
qed

subsection \<open>The enumeration\<close>

lemma combinations_with_replacement_map:
  "combinations_with_replacement (map f xs) = map (map_prod f f) (combinations_with_replacement xs)"
  by (induction xs) simp_all

lemma set_combinations_with_replacement_subset:
  "set (combinations_with_replacement xs) \<subseteq> set xs \<times> set xs"
  by (induction xs) auto

lemma set_combinations_with_replacement_append:
  "set (combinations_with_replacement (xs @ ys)) =
   set (combinations_with_replacement xs) \<union> set xs \<times> set ys \<union> set (combinations_with_replacement ys)"
  by (induction xs) auto

lemma combinations_with_replacement_ordered:
  assumes "distinct (p @ a # q @ b # r)"
  shows "(a, b) \<in> set (combinations_with_replacement (p @ a # q @ b # r))"
    and "(b, a) \<notin> set (combinations_with_replacement (p @ a # q @ b # r))"
proof -
  show "(a, b) \<in> set (combinations_with_replacement (p @ a # q @ b # r))"
    by (simp add: set_combinations_with_replacement_append)
  have "(b, a) \<notin> set (combinations_with_replacement p)"
    "(b, a) \<notin> set (combinations_with_replacement q)"
    "(b, a) \<notin> set (combinations_with_replacement r)"
    using assms set_combinations_with_replacement_subset[of p]
      set_combinations_with_replacement_subset[of q]
      set_combinations_with_replacement_subset[of r] by auto
  with assms show "(b, a) \<notin> set (combinations_with_replacement (p @ a # q @ b # r))"
    by (auto simp: set_combinations_with_replacement_append)
qed

lemma map_fst_unary_jobs:
  "map fst (unary_jobs op db) =
   (if op = sp_sqrt then map (\<lambda>a. Sqrt (Symbol a)) (map fst (non_target db)) else [])"
  by (simp add: unary_jobs_def case_prod_unfold comp_def)

lemma map_fst_binary_jobs:
  "map fst (binary_jobs op db) =
   (if op \<in> set [sp_Add, sp_Mul, sp_Pow]
    then map (\<lambda>(a, b). call2 op (Symbol a) (Symbol b))
           (combinations_with_replacement (map fst (non_target db)))
    else [])"
  by (simp add: binary_jobs_def combinations_with_replacement_map case_prod_unfold comp_def)

lemma map_fst_jobs: "map fst (jobs db) = enumeration (map fst (non_target db))"
  by (simp add: jobs_def operations_def enumeration_def map_fst_unary_jobs map_fst_binary_jobs
      del: combinations_with_replacement.simps)

lemma enumeration_single:
  "enumeration [c] = [Add (Symbol c) (Symbol c), Mul (Symbol c) (Symbol c),
                      Power (Symbol c) (Symbol c), Sqrt (Symbol c)]"
  by (simp add: enumeration_def)

lemma Power_in_enumeration:
  "Power (Symbol a) (Symbol b) \<in> set (enumeration names) \<longleftrightarrow>
   (a, b) \<in> set (combinations_with_replacement names)"
  by (auto simp: enumeration_def)

lemma free_symbols_enumeration:
  assumes "e \<in> set (enumeration names)"
  shows "free_symbols e \<subseteq> set names"
  using assms set_combinations_with_replacement_subset[of names]
  by (auto simp: enumeration_def)

lemma target_not_in_non_target: "''TARGET'' \<notin> set (map fst (non_target db))"
  by (auto simp: non_target_def)

lemma jobs_empty: "non_target db = [] \<Longrightarrow> jobs db = []"
  by (simp add: jobs_def operations_def unary_jobs_def binary_jobs_def)

lemma evalf_call2_positive:
  assumes "0 < v1" and "0 < v2"
  shows "\<exists>v. evalf [c1 \<mapsto> v1, c2 \<mapsto> v2] (call2 op (Symbol c1) (Symbol c2)) = Inr (Some v)"
  using assms by (cases op) (auto simp: float_pow_def)

lemma unary_jobs_evaluable:
  "(e, subs) \<in> set (unary_jobs op db) \<Longrightarrow> \<exists>v. evalf subs e = Inr (Some v)"
  by (auto simp: unary_jobs_def split: if_splits)

lemma binary_jobs_evaluable_positive:
  assumes "\<forall>(c, v) \<in> set (non_target db). 0 < v" and "(e, subs) \<in> set (binary_jobs op db)"
  shows "\<exists>v. evalf subs e = Inr (Some v)"
proof -
  from assms(2) obtain c1 v1 c2 v2 where
    mem: "((c1, v1), (c2, v2)) \<in> set (combinations_with_replacement (non_target db))"
    and e: "e = call2 op (Symbol c1) (Symbol c2)" and subs: "subs = [c1 \<mapsto> v1, c2 \<mapsto> v2]"
    unfolding binary_jobs_def by (auto split: if_splits)
  from mem set_combinations_with_replacement_subset[of "non_target db"]
  have "(c1, v1) \<in> set (non_target db)" "(c2, v2) \<in> set (non_target db)" by auto
  with assms(1) have "0 < v1" "0 < v2" by auto
  from evalf_call2_positive[OF this] show ?thesis unfolding e subs .
qed

lemma jobs_evaluable_positive:
  assumes "\<forall>(c, v) \<in> set (non_target db). 0 < v"
  shows "\<forall>(e, subs) \<in> set (jobs db). \<exists>v. evalf subs e = Inr (Some v)"
  using unary_jobs_evaluable binary_jobs_evaluable_positive[OF assms]
  by (fastforce simp: jobs_def)

lemma jobs_evaluable_single:
  assumes "non_target db = [(c, v)]"
  shows "\<forall>(e, subs) \<in> set (jobs db). \<exists>v. evalf subs e = Inr (Some v)"
  by (simp add: jobs_def operations_def unary_jobs_def binary_jobs_def assms float_pow_def)

subsection \<open>The scan\<close>

text \<open>
  The scan completes on every table with a \<^verbatim>\<open>TARGET\<close> entry whose other constants
  are positive, and on every table with a \<^verbatim>\<open>TARGET\<close> entry and one other
  constant. It does not complete on every table: zero to a negative power
  raises.
\<close>

lemma scan_total_positive:
  assumes "map_of db ''TARGET'' = Some t" and "\<forall>(c, v) \<in> set (non_target db). 0 < v"
  shows "\<exists>s. scan db = Inr s"
  unfolding scan_run_jobs using run_jobs_total[OF assms(1) jobs_evaluable_positive[OF assms(2)]] .

lemma scan_total_single:
  assumes "map_of db ''TARGET'' = Some t" and "non_target db = [(c, v)]"
  shows "\<exists>s. scan db = Inr s"
  unfolding scan_run_jobs using run_jobs_total[OF assms(1) jobs_evaluable_single[OF assms(2)]] .

lemma scan_zero_division:
  "scan [(''Z'', 0), (''N'', - 1), (''TARGET'', 1)] = Inl ZeroDivisionError"
  by (simp add: scan_def operations_def init_state_def check_def tolerance_def float_pow_def
      Let_def)

lemma scan_evaluated:
  assumes "scan db = Inr s"
  shows "map fst (evaluated s) = enumeration (map fst (non_target db))"
  using run_jobs_evaluated[OF assms[unfolded scan_run_jobs]]
  by (simp add: init_state_def map_fst_jobs)

lemma candidates_enumeration:
  assumes "scan db = Inr s"
  shows "candidates db = enumeration (map fst (non_target db))"
  using scan_evaluated[OF assms] by (simp add: candidates_def assms)




subsection \<open>The table \<^verbatim>\<open>{A: 2.0, TARGET: 4.0}\<close>\<close>

lemma sqrt_2_less_2: "sqrt 2 < 2"
  by (rule real_less_lsqrt) simp_all

lemma scan_square_db:
  "scan square_db =
     Inr \<lparr>best_expr = Some (Add (Symbol ''A'') (Symbol ''A'')), best_error = Num 0,
          printed = [(Add (Symbol ''A'') (Symbol ''A''), 0), (Mul (Symbol ''A'') (Symbol ''A''), 0),
                     (Power (Symbol ''A'') (Symbol ''A''), 0)],
          evaluated = [(Add (Symbol ''A'') (Symbol ''A''), 0), (Mul (Symbol ''A'') (Symbol ''A''), 0),
                       (Power (Symbol ''A'') (Symbol ''A''), 0), (Sqrt (Symbol ''A''), 4 - sqrt 2)]\<rparr>"
proof -
  have "\<bar>sqrt 2 - 4\<bar> = 4 - sqrt 2" "\<not> \<bar>sqrt 2 - 4\<bar> * 1000 < 1"
    using sqrt_2_less_2 by simp_all
  then show ?thesis
    by (simp add: scan_def square_db_def operations_def init_state_def check_def tolerance_def
        float_pow_def Let_def)
qed

lemma square_db_target: "map_of square_db ''TARGET'' = Some 4"
  by (simp add: square_db_def)

lemma square_db_distinct: "distinct (map fst square_db)"
  by (simp add: square_db_def)

lemma square_db_non_target: "non_target square_db = [(''A'', 2)]"
  by (simp add: square_db_def non_target_def)

subsection \<open>The example table\<close>

lemma example_db_target: "map_of example_db ''TARGET'' = Some (9869 / 1000)"
  by (simp add: example_db_def)

lemma example_db_distinct: "distinct (map fst example_db)"
  by (simp add: example_db_def)

lemma powr_upper:
  assumes "1 \<le> (x::real)" and "y \<le> 4" and "x ^ 4 \<le> u"
  shows "x powr y \<le> u"
proof -
  have "x powr y \<le> x powr 4" using assms(1,2) by (intro powr_mono) simp_all
  also have "\<dots> = x ^ 4" using assms(1) by (simp add: powr_numeral)
  finally show ?thesis using assms(3) by simp
qed

lemma powr_lower:
  assumes "1 \<le> (x::real)" and "3 \<le> y" and "l \<le> x ^ 3"
  shows "l \<le> x powr y"
proof -
  have "x ^ 3 = x powr 3" using assms(1) by (simp add: powr_numeral)
  also have "\<dots> \<le> x powr y" using assms(1,2) by (intro powr_mono) simp_all
  finally show ?thesis using assms(3) by simp
qed

lemma C2_powr_C2: "11 \<le> (2718 / 1000 :: real) powr (2718 / 1000)"
proof -
  let ?x = "2718 / 1000 :: real"
  have "(3 / 2 :: real) \<le> sqrt ?x" by (rule real_le_rsqrt) (simp add: power2_eq_square)
  then have "?x ^ 2 * (3 / 2) \<le> ?x ^ 2 * sqrt ?x" by (intro mult_left_mono) simp_all
  moreover have "(11::real) \<le> ?x ^ 2 * (3 / 2)" by (simp add: power2_eq_square)
  ultimately have "11 \<le> ?x ^ 2 * sqrt ?x" by linarith
  also have "?x ^ 2 * sqrt ?x = ?x powr 2 * ?x powr (1 / 2)"
    by (simp add: powr_numeral powr_half_sqrt)
  also have "\<dots> = ?x powr (2 + 1 / 2)" by (simp only: powr_add)
  also have "\<dots> \<le> ?x powr ?x" by (intro powr_mono) simp_all
  finally show ?thesis .
qed

lemma example_bounds:
  "(1618 / 1000 :: real) powr (1618 / 1000) \<le> 7"
  "(1618 / 1000 :: real) powr (2718 / 1000) \<le> 7"
  "(1618 / 1000 :: real) powr (31415 / 10000) \<le> 7"
  "11 \<le> (2718 / 1000 :: real) powr (2718 / 1000)"
  "11 \<le> (2718 / 1000 :: real) powr (31415 / 10000)"
  "11 \<le> (31415 / 10000 :: real) powr (31415 / 10000)"
  "sqrt (1618 / 1000) \<le> 2"
  "sqrt (2718 / 1000) \<le> 2"
  "sqrt (31415 / 10000) \<le> 2"
proof -
  have u: "(1618 / 1000 :: real) powr y \<le> 7" if "y \<le> 4" for y
    using that by (rule powr_upper[rotated]) (simp_all add: power4_eq_xxxx)
  show "(1618 / 1000 :: real) powr (1618 / 1000) \<le> 7"
    "(1618 / 1000 :: real) powr (2718 / 1000) \<le> 7"
    "(1618 / 1000 :: real) powr (31415 / 10000) \<le> 7"
    by (rule u, simp)+
  show "11 \<le> (2718 / 1000 :: real) powr (2718 / 1000)" by (rule C2_powr_C2)
  show "(11::real) \<le> (2718 / 1000) powr (31415 / 10000)"
    by (rule powr_lower) (simp_all add: power3_eq_cube)
  show "(11::real) \<le> (31415 / 10000) powr (31415 / 10000)"
    by (rule powr_lower) (simp_all add: power3_eq_cube)
  have r: "sqrt x \<le> 2" if "x \<le> 4" for x :: real
    using that by (intro real_le_lsqrt) simp_all
  show "sqrt (1618 / 1000) \<le> 2" "sqrt (2718 / 1000) \<le> 2" "sqrt (31415 / 10000) \<le> 2"
    by (rule r, simp)+
qed

lemma example_jobs:
  "jobs example_db =
     (binary_jobs sp_Add example_db @ binary_jobs sp_Mul example_db) @
     (binary_jobs sp_Pow example_db @ unary_jobs sp_sqrt example_db)"
  by (simp add: jobs_def operations_def unary_jobs_def binary_jobs_def)

lemma example_head:
  "\<exists>s. run_jobs example_db (binary_jobs sp_Add example_db @ binary_jobs sp_Mul example_db) init_state = Inr s \<and>
       best_expr s = Some (Mul (Symbol ''C3'') (Symbol ''C3'')) \<and>
       best_error s = Num (2225 / 100000000) \<and>
       printed s = [(Mul (Symbol ''C3'') (Symbol ''C3''), 2225 / 100000000)]"
  by (simp add: binary_jobs_def non_target_def example_db_def init_state_def check_def
      tolerance_def float_pow_def Let_def)

lemma example_tail:
  "\<forall>(e, subs) \<in> set (binary_jobs sp_Pow example_db @ unary_jobs sp_sqrt example_db).
      \<exists>v. evalf subs e = Inr (Some v) \<and> tolerance \<le> \<bar>v - 9869 / 1000\<bar>"
  using example_bounds
  by (simp add: binary_jobs_def unary_jobs_def non_target_def example_db_def tolerance_def
      float_pow_def)

lemma scan_example_db:
  "\<exists>s. scan example_db = Inr s \<and>
       best_expr s = Some (Mul (Symbol ''C3'') (Symbol ''C3'')) \<and>
       best_error s = Num (2225 / 100000000) \<and>
       printed s = [(Mul (Symbol ''C3'') (Symbol ''C3''), 2225 / 100000000)]"
proof -
  from example_head obtain s1 where s1:
    "run_jobs example_db (binary_jobs sp_Add example_db @ binary_jobs sp_Mul example_db) init_state = Inr s1"
    "best_expr s1 = Some (Mul (Symbol ''C3'') (Symbol ''C3''))"
    "best_error s1 = Num (2225 / 100000000)"
    "printed s1 = [(Mul (Symbol ''C3'') (Symbol ''C3''), 2225 / 100000000)]"
    by blast
  have "(2225 / 100000000 :: real) \<le> tolerance" by (simp add: tolerance_def)
  from run_jobs_no_improvement[OF example_db_target s1(3) this example_tail]
  obtain s where "run_jobs example_db (binary_jobs sp_Pow example_db @ unary_jobs sp_sqrt example_db) s1 = Inr s"
    "best_expr s = best_expr s1" "best_error s = best_error s1" "printed s = printed s1"
    by blast
  with s1 show ?thesis
    by (simp only: scan_run_jobs example_jobs run_jobs_append[of _ "_ @ _" "_ @ _"] sum.case) simp
qed

subsection \<open>Claims\<close>

text \<open>
  C1: for the example table the scan returns; its final best match is
  \<^verbatim>\<open>C3 * C3\<close>, whose error \<open>\<bar>3.1415 * 3.1415 - 9.869\<bar>\<close> is below the tolerance, and
  this candidate (and no other) is printed as a potential discovery. The final
  report names the same candidate.
\<close>

theorem example_table_best_match:
  "\<exists>s. scan example_db = Inr s \<and>
       best_expr s = Some (Mul (Symbol ''C3'') (Symbol ''C3'')) \<and>
       best_error s = Num \<bar>31415 / 10000 * (31415 / 10000) - 9869 / 1000\<bar> \<and>
       \<bar>31415 / 10000 * (31415 / 10000) - 9869 / 1000\<bar> < tolerance \<and>
       printed s = [(Mul (Symbol ''C3'') (Symbol ''C3''),
                     \<bar>31415 / 10000 * (31415 / 10000) - 9869 / 1000\<bar>)] \<and>
       discover example_db =
         Inr \<lparr>rep_expr = Mul (Symbol ''C3'') (Symbol ''C3''),
              rep_value = Some (31415 / 10000 * (31415 / 10000)),
              rep_target = 9869 / 1000,
              rep_error = Num \<bar>31415 / 10000 * (31415 / 10000) - 9869 / 1000\<bar>\<rparr>"
proof -
  from scan_example_db obtain s where s: "scan example_db = Inr s"
    "best_expr s = Some (Mul (Symbol ''C3'') (Symbol ''C3''))"
    "best_error s = Num (2225 / 100000000)"
    "printed s = [(Mul (Symbol ''C3'') (Symbol ''C3''), 2225 / 100000000)]"
    by blast
  have e: "\<bar>31415 / 10000 * (31415 / 10000) - 9869 / 1000\<bar> = (2225 / 100000000 :: real)"
    by simp
  have "final_report example_db s =
         Inr \<lparr>rep_expr = Mul (Symbol ''C3'') (Symbol ''C3''),
              rep_value = Some (31415 / 10000 * (31415 / 10000)),
              rep_target = 9869 / 1000, rep_error = Num (2225 / 100000000)\<rparr>"
    by (simp add: final_report_def s example_db_def)
  with s e show ?thesis by (auto simp: discover_def tolerance_def)
qed

text \<open>
  C2 (as stated): for the table \<^verbatim>\<open>{A: 2.0, TARGET: 4.0}\<close> the final best match is
  \<^verbatim>\<open>A * A\<close>. This fails: \<^verbatim>\<open>A + A\<close> is evaluated first, has error 0 as well, and
  the strict comparison keeps it. The final report names \<^verbatim>\<open>A + A\<close>.
\<close>

theorem square_table_best_is_sum:
  "discover square_db =
     Inr \<lparr>rep_expr = Add (Symbol ''A'') (Symbol ''A''), rep_value = Some 4,
          rep_target = 4, rep_error = Num 0\<rparr> \<and>
   Add (Symbol ''A'') (Symbol ''A'') \<noteq> Mul (Symbol ''A'') (Symbol ''A'')"
  unfolding discover_def scan_square_db
  by (simp add: final_report_def square_db_def)

text \<open>
  C2 (amended): for the table \<^verbatim>\<open>{A: 2.0, TARGET: 4.0}\<close> the final best match is
  \<^verbatim>\<open>A + A\<close>, the first candidate, with error 0; \<^verbatim>\<open>A * A\<close>, the second candidate,
  has the value 4 and the error 0 and is printed as a potential discovery.
\<close>

theorem square_table_sum_wins_product_flagged:
  "\<exists>s. scan square_db = Inr s \<and>
       best_expr s = Some (Add (Symbol ''A'') (Symbol ''A'')) \<and> best_error s = Num 0 \<and>
       evalf (map_of square_db) (Mul (Symbol ''A'') (Symbol ''A'')) = Inr (Some 4) \<and>
       (Mul (Symbol ''A'') (Symbol ''A''), 0) \<in> set (evaluated s) \<and>
       (Mul (Symbol ''A'') (Symbol ''A''), 0) \<in> set (printed s) \<and>
       map fst (evaluated s) ! 0 = Add (Symbol ''A'') (Symbol ''A'') \<and>
       map fst (evaluated s) ! 1 = Mul (Symbol ''A'') (Symbol ''A'')"
  unfolding scan_square_db
  by (simp add: square_db_def)

text \<open>
  C3 (as stated): with exactly one non-target entry the enumeration has only
  square-root candidates and no binary candidate. This fails:
  \<^verbatim>\<open>combinations_with_replacement\<close> pairs the single entry with itself. For the
  table \<^verbatim>\<open>{A: 2.0, TARGET: 4.0}\<close> the product \<^verbatim>\<open>A * A\<close> is a candidate.
\<close>

theorem single_constant_has_binary_candidates:
  "length (non_target square_db) = 1 \<and>
   Mul (Symbol ''A'') (Symbol ''A'') \<in> set (candidates square_db)"
  by (simp add: candidates_enumeration[OF scan_square_db] square_db_non_target enumeration_single)

text \<open>
  C3 (amended): with a \<^verbatim>\<open>TARGET\<close> entry and exactly one non-target entry \<open>c\<close> the
  candidates are the three self-pairs \<^verbatim>\<open>c + c\<close>, \<^verbatim>\<open>c * c\<close>, \<^verbatim>\<open>c ** c\<close> and then
  \<^verbatim>\<open>sqrt(c)\<close>.
\<close>

theorem single_constant_candidates:
  assumes "map_of db ''TARGET'' = Some t" and "non_target db = [(c, v)]"
  shows "candidates db = [Add (Symbol c) (Symbol c), Mul (Symbol c) (Symbol c),
                          Power (Symbol c) (Symbol c), Sqrt (Symbol c)]"
proof -
  from scan_total_single[OF assms] obtain s where "scan db = Inr s" ..
  from candidates_enumeration[OF this] show ?thesis
    by (simp add: assms(2) enumeration_single)
qed

theorem single_constant_candidates_witness:
  "map_of square_db ''TARGET'' = Some 4 \<and> non_target square_db = [(''A'', 2)] \<and>
   candidates square_db = [Add (Symbol ''A'') (Symbol ''A''), Mul (Symbol ''A'') (Symbol ''A''),
                           Power (Symbol ''A'') (Symbol ''A''), Sqrt (Symbol ''A'')]"
  using single_constant_candidates[OF square_db_target square_db_non_target]
  by (simp add: square_db_target square_db_non_target)

text \<open>
  C4: with no non-target entry the matcher should report ``no match'' and not
  fail. The source does fail: nothing is evaluated, \<^verbatim>\<open>best_match['expr']\<close> is
  still \<^verbatim>\<open>None\<close>, and line 267 calls \<^verbatim>\<open>.evalf\<close> on it, an \<^verbatim>\<open>AttributeError\<close>.
\<close>

theorem empty_operand_set_raises:
  assumes "non_target db = []"
  shows "discover db = Inl AttributeError"
  by (simp add: discover_def scan_run_jobs jobs_empty[OF assms] final_report_def init_state_def)

theorem empty_operand_set_raises_witness:
  "non_target [(''TARGET'', 9869 / 1000)] = [] \<and>
   discover [(''TARGET'', 9869 / 1000)] = Inl AttributeError"
proof -
  have h: "non_target [(''TARGET'', 9869 / 1000)] = []" by (simp add: non_target_def)
  from empty_operand_set_raises[OF h] h show ?thesis by simp
qed







text \<open>
  C8: when the scan completes, the candidates it evaluated are the enumeration
  over the names of the non-target entries; \<^verbatim>\<open>TARGET\<close> is not among these names,
  and no candidate has \<^verbatim>\<open>TARGET\<close> among its symbols.
\<close>

theorem target_never_operand:
  assumes "scan db = Inr s"
  shows "map fst (evaluated s) = enumeration (map fst (non_target db)) \<and>
         ''TARGET'' \<notin> set (map fst (non_target db)) \<and>
         (\<forall>(e, err) \<in> set (evaluated s).
             ''TARGET'' \<notin> free_symbols e \<and> free_symbols e \<subseteq> set (map fst (non_target db)))"
proof -
  have enum: "map fst (evaluated s) = enumeration (map fst (non_target db))"
    using assms by (rule scan_evaluated)
  have "''TARGET'' \<notin> free_symbols e \<and> free_symbols e \<subseteq> set (map fst (non_target db))"
    if mem: "(e, err) \<in> set (evaluated s)" for e err
  proof -
    from mem have "e \<in> set (map fst (evaluated s))" by force
    then have "e \<in> set (enumeration (map fst (non_target db)))" by (simp only: enum)
    from free_symbols_enumeration[OF this] target_not_in_non_target[of db]
    show ?thesis by blast
  qed
  with enum target_not_in_non_target[of db] show ?thesis by blast
qed

theorem target_never_operand_witness:
  "\<exists>s. scan square_db = Inr s \<and> length (evaluated s) = 4 \<and>
       map fst (evaluated s) = enumeration (map fst (non_target square_db)) \<and>
       ''TARGET'' \<notin> set (map fst (non_target square_db)) \<and>
       ''TARGET'' \<notin> free_symbols (fst (evaluated s ! 1)) \<and>
       free_symbols (fst (evaluated s ! 1)) \<subseteq> set (map fst (non_target square_db))"
proof -
  obtain s where s: "scan square_db = Inr s" by (simp add: scan_square_db)
  from target_never_operand[OF s]
  have enum: "map fst (evaluated s) = enumeration (map fst (non_target square_db))"
    and nt: "''TARGET'' \<notin> set (map fst (non_target square_db))"
    and all: "\<forall>(e, err) \<in> set (evaluated s). ''TARGET'' \<notin> free_symbols e \<and>
               free_symbols e \<subseteq> set (map fst (non_target square_db))"
    by blast+
  from s have len: "length (evaluated s) = 4" by (auto simp: scan_square_db)
  then have "evaluated s ! 1 \<in> set (evaluated s)" by simp
  with all have "''TARGET'' \<notin> free_symbols (fst (evaluated s ! 1)) \<and>
      free_symbols (fst (evaluated s ! 1)) \<subseteq> set (map fst (non_target square_db))"
    by (auto simp: case_prod_unfold)
  with s len enum nt show ?thesis by blast
qed

text \<open>
  C10: when the scan completes and the non-target constant \<open>a\<close> stands before
  the non-target constant \<open>b\<close> in the table, the power \<^verbatim>\<open>a ** b\<close> is a candidate
  and \<^verbatim>\<open>b ** a\<close> is not; in the example table \<^verbatim>\<open>C2 ** C3\<close> is a candidate and
  \<^verbatim>\<open>C3 ** C2\<close> is not.
\<close>

theorem power_only_in_table_order:
  assumes "distinct (map fst db)" and "scan db = Inr s"
    and "db = pre @ (a, va) # mid @ (b, vb) # post"
    and "a \<noteq> ''TARGET''" and "b \<noteq> ''TARGET''"
  shows "Power (Symbol a) (Symbol b) \<in> set (candidates db) \<and>
         Power (Symbol b) (Symbol a) \<notin> set (candidates db)"
proof -
  let ?names = "map fst (non_target db)"
  have names: "?names = map fst (non_target pre) @ a # map fst (non_target mid) @ b # map fst (non_target post)"
    using assms(4,5) by (simp add: assms(3) non_target_def)
  have "distinct ?names"
    using assms(1) unfolding non_target_def by (rule distinct_map_filter)
  then have d: "distinct (map fst (non_target pre) @ a # map fst (non_target mid) @ b # map fst (non_target post))"
    by (simp only: names)
  from combinations_with_replacement_ordered[OF d] show ?thesis
    by (simp only: candidates_enumeration[OF assms(2)] Power_in_enumeration names simp_thms)
qed

theorem power_only_in_table_order_witness:
  "distinct (map fst example_db) \<and> (\<exists>s. scan example_db = Inr s) \<and>
   example_db = [(''C1'', 1618 / 1000)] @ (''C2'', 2718 / 1000) # [] @ (''C3'', 31415 / 10000) #
                [(''TARGET'', 9869 / 1000)] \<and>
   ''C2'' \<noteq> ''TARGET'' \<and> ''C3'' \<noteq> ''TARGET'' \<and>
   Power (Symbol ''C2'') (Symbol ''C3'') \<in> set (candidates example_db) \<and>
   Power (Symbol ''C3'') (Symbol ''C2'') \<notin> set (candidates example_db)"
proof -
  from scan_example_db obtain s where s: "scan example_db = Inr s" by blast
  have split: "example_db = [(''C1'', 1618 / 1000)] @ (''C2'', 2718 / 1000) # [] @
     (''C3'', 31415 / 10000) # [(''TARGET'', 9869 / 1000)]"
    by (simp add: example_db_def)
  have ne: "''C2'' \<noteq> ''TARGET''" "''C3'' \<noteq> ''TARGET''" by simp_all
  from power_only_in_table_order[OF example_db_distinct s split ne]
    example_db_distinct s split ne
  show ?thesis by blast
qed

end
